theory Spec2Isabelle
  imports Main "HOL-Library.Stream"
begin

section \<open>Game objects and the world\<close>

text \<open>
  The rules of \<^verbatim>\<open>gamerules/hiding.py\<close> and \<^verbatim>\<open>typeclasses/characters.py\<close> read and
  mutate framework objects that are shared between a room's contents list and the callers.
  The world is therefore an explicit store from references to objects; Python's identity
  comparison \<^verbatim>\<open>obj != hider\<close> is inequality of references.
\<close>

type_synonym ref = nat

text \<open>
  Modelled from the spec: \<^verbatim>\<open>gamerules/room_kind.py\<close> is imported by hiding.py but is not
  among the sources. The spec gives the concealment policy of a location as the
  enumeration NORMAL, NO_HIDE, HARD_TO_HIDE; hiding.py names the last two.
\<close>

datatype RoomKind = NORMAL | NO_HIDE | HARD_TO_HIDE

text \<open>
  One record for every framework object (room, character, mobile, weapon); a field that a
  kind of object does not use is simply not read for it.
  \<^item> \<open>is_character\<close> is the answer of \<^verbatim>\<open>is_typeclass("typeclasses.characters.Character")\<close>;
  \<^item> \<open>location\<close> is the room holding the object (the rules are only applied to objects
    that occupy a location);
  \<^item> \<open>health\<close> is \<^verbatim>\<open>db.health\<close>, \<open>hiding\<close> is \<^verbatim>\<open>ndb.hiding\<close>;
  \<^item> \<open>level\<close> and \<open>max_health\<close> are the values returned by the methods
    \<^verbatim>\<open>level()\<close> and \<^verbatim>\<open>max_health()\<close>, which the sources call but do not define;
  \<^item> \<open>inbox\<close> collects, oldest first, every text delivered through \<^verbatim>\<open>msg\<close>.
\<close>

record obj =
  key :: string
  is_character :: bool
  location :: ref
  contents :: "ref list"
  room_kind :: RoomKind
  health :: int
  max_health :: int
  hiding :: int
  level :: int
  inbox :: "string list"

type_synonym world = "ref \<Rightarrow> obj"

datatype error = NameError string | IndexError

subsection \<open>Messaging\<close>

text \<open>\<^verbatim>\<open>obj.msg(text)\<close>: deliver one text to one object.\<close>

definition msg :: "world \<Rightarrow> ref \<Rightarrow> string \<Rightarrow> world" where
  "msg w r t = w(r := (w r)\<lparr>inbox := inbox (w r) @ [t]\<rparr>)"

text \<open>
  \<^verbatim>\<open>room.msg_contents(text, exclude=[...])\<close>: deliver the text to every entry of the room's
  contents that is not excluded, in the order of the contents list.
\<close>

definition msg_each :: "world \<Rightarrow> ref list \<Rightarrow> string \<Rightarrow> ref list \<Rightarrow> world" where
  "msg_each w rs t exclude = foldl (\<lambda>w' r. if r \<in> set exclude then w' else msg w' r t) w rs"

definition msg_contents :: "world \<Rightarrow> ref \<Rightarrow> string \<Rightarrow> ref list \<Rightarrow> world" where
  "msg_contents w room t exclude = msg_each w (contents (w room)) t exclude"

subsection \<open>The random source\<close>

text \<open>
  Python's \<^verbatim>\<open>random\<close> module is a global generator. It is modelled as a stream of raw
  draws that every call consumes from the front: \<^verbatim>\<open>random.randint(a, b)\<close> maps a raw draw
  into the inclusive range from \<open>a\<close> to \<open>b\<close>, \<^verbatim>\<open>random.choice(seq)\<close> maps it to an index of
  the sequence and raises IndexError on the empty sequence.
\<close>

type_synonym rng = "nat stream"

definition randint :: "int \<Rightarrow> int \<Rightarrow> rng \<Rightarrow> int \<times> rng" where
  "randint a b g = (a + int (shd g mod nat (b - a + 1)), stl g)"

definition choice :: "'a list \<Rightarrow> rng \<Rightarrow> (error + 'a) \<times> rng" where
  "choice xs g =
     (if xs = [] then (Inl IndexError, g)
      else (Inr (xs ! (shd g mod length xs)), stl g))"

section \<open>gamerules/hiding.py\<close>

definition MAX_HIDE :: int where
  "MAX_HIDE = 15"

fun num_unhidden_others_loop :: "world \<Rightarrow> ref list \<Rightarrow> ref \<Rightarrow> nat \<Rightarrow> nat" where
  "num_unhidden_others_loop w [] hider num = num"
| "num_unhidden_others_loop w (ob # rest) hider num =
     (if is_character (w ob) \<and> ob \<noteq> hider
      then num_unhidden_others_loop w rest hider (num + 1)
      else num_unhidden_others_loop w rest hider num)"

definition num_unhidden_others :: "world \<Rightarrow> ref \<Rightarrow> ref \<Rightarrow> nat" where
  "num_unhidden_others w room hider = num_unhidden_others_loop w (contents (w room)) hider 0"

definition hide :: "world \<Rightarrow> rng \<Rightarrow> ref \<Rightarrow> world \<times> rng" where
  "hide w g hider =
     (let room = location (w hider) in
      if room_kind (w room) = NO_HIDE then
        (msg w hider ''There is no room to hide here.'', g)
      else
        let (hard_fail, g1) =
              (if room_kind (w room) = HARD_TO_HIDE
               then (let (r, g') = randint 0 100 g in (r > 20, g'))
               else (False, g))
        in
        if hard_fail then
          (msg w hider ''You couldn't find a place to hide.'', g1)
        else if num_unhidden_others w room hider > 0 then
          (if hiding (w hider) > 0
           then (msg w hider ''You can't hide any better with people in the room.'', g1)
           else (msg w hider ''You can't hide when people are watching you.'', g1))
        else
          let (r2, g2) = randint 0 100 g1 in
          if r2 < 25 then
            (if hiding (w hider) > 0
             then (msg w hider ''You could not find a better hiding place.'', g2)
             else (msg w hider ''You could not find a good hiding place.'', g2))
          else if hiding (w hider) > level (w hider) then
            (msg w hider
               ''You're pretty well hidden now.  I don't think you could be any less visible.'',
             g2)
          else
            let w1 = w(hider := (w hider)\<lparr>hiding := hiding (w hider) + 1\<rparr>) in
            if hiding (w1 hider) > 1
            then (msg w1 hider ''You've managed to hide yourself a little better.'', g2)
            else (msg w1 hider ''You've hidden yourself from view.'', g2))"

definition reveal :: "world \<Rightarrow> ref \<Rightarrow> world" where
  "reveal w hider =
     (if hiding (w hider) = 0 then msg w hider ''You were not hiding.''
      else
        let w1 = w(hider := (w hider)\<lparr>hiding := 0\<rparr>);
            w2 = msg w1 hider ''You are no longer hiding.''
        in msg_contents w2 (location (w2 hider))
             (key (w2 hider) @ '' has stepped out of the shadows.'') [hider])"

text \<open>
  Modelled from the spec: \<^verbatim>\<open>Character.is_hiding\<close> is called by reveal_people but is not
  defined in the sources. The spec reads it as "is currently concealed", and a concealment
  level of 0 as fully visible.
\<close>

definition is_hiding :: "obj \<Rightarrow> bool" where
  "is_hiding ob = (hiding ob > 0)"

text \<open>
  The loop \<^verbatim>\<open>for retry in range(0, 7)\<close> of reveal_people, counted down. The discovery roll
  is only drawn when the first two conjuncts hold, as Python's \<^verbatim>\<open>and\<close> evaluates.
\<close>

fun reveal_people_loop ::
  "nat \<Rightarrow> ref list \<Rightarrow> world \<Rightarrow> rng \<Rightarrow> ref \<Rightarrow> (error + bool) \<times> world \<times> rng" where
  "reveal_people_loop 0 characters w g searcher = (Inr False, w, g)"
| "reveal_people_loop (Suc n) characters w g searcher =
     (case choice characters g of
        (Inl e, g1) \<Rightarrow> (Inl e, w, g1)
      | (Inr picked, g1) \<Rightarrow>
          if picked \<noteq> searcher \<and> is_hiding (w picked) then
            (let (d, g2) = randint 0 MAX_HIDE g1 in
             if d > hiding (w picked) then
               (let w1 = w(picked := (w picked)\<lparr>hiding := 0\<rparr>);
                    w2 = msg w1 searcher
                           (''You've found '' @ key (w1 picked) @ '' hiding in the shadows!'');
                    w3 = msg w2 picked (''You've been discovered by '' @ key (w2 searcher));
                    w4 = msg_contents w3 (location (w3 searcher))
                           (key (w3 searcher) @ '' has found '' @ key (w3 picked)
                              @ '' hiding in the shadows!'') [searcher]
                in (Inr True, w4, g2))
             else reveal_people_loop n characters w g2 searcher)
          else reveal_people_loop n characters w g1 searcher)"

definition reveal_people :: "world \<Rightarrow> rng \<Rightarrow> ref \<Rightarrow> (error + bool) \<times> world \<times> rng" where
  "reveal_people w g searcher =
     (let characters = filter (\<lambda>x. is_character (w x)) (contents (w (location (w searcher))))
      in reveal_people_loop 7 characters w g searcher)"

definition search :: "world \<Rightarrow> rng \<Rightarrow> ref \<Rightarrow> (error + unit) \<times> world \<times> rng" where
  "search w g searcher =
     (let w1 = msg_contents w (location (w searcher))
                 (key (w searcher) @ '' seems to be looking for something.'') [searcher];
          (rand, g1) = randint 0 100 g
      in
      if rand < 20 then (Inr (), msg w1 searcher ''You haven't found anything.'', g1)
      else if rand < 40 then (Inr (), msg w1 searcher ''You haven't found anything.'', g1)
      else
        (case reveal_people w1 g1 searcher of
           (Inl e, w2, g2) \<Rightarrow> (Inl e, w2, g2)
         | (Inr found, w2, g2) \<Rightarrow>
             if \<not> found then (Inr (), msg w2 searcher ''You haven't found anything.'', g2)
             else (Inr (), w2, g2)))"

section \<open>typeclasses/characters.py\<close>

definition health_msg :: "obj \<Rightarrow> string" where
  "health_msg self =
     (let health = health self in
      if health \<ge> 1700 then key self @ '' is in ultimate health.''
      else if health > 1400 then key self @ '' is in incredible health.''
      else if health > 1200 then key self @ '' is in extraordinary health.''
      else if health > 1000 then key self @ '' is in tremendous health.''
      else if health > 850 then key self @ '' is in superior condition.''
      else if health > 700 then key self @ '' is in exceptional health.''
      else if health > 500 then key self @ '' is in good health.''
      else if health > 350 then key self @ '' looks a little bit dazed.''
      else if health > 200 then key self @ '' has some minor wounds.''
      else if health > 100 then key self @ '' is suffering from some serious wounds.''
      else if health > 50 then key self @ '' is in critical condition.''
      else if health > 1 then key self @ '' is near death.''
      else key self @ '' is dead.'')"

definition self_health_msg :: "obj \<Rightarrow> string" where
  "self_health_msg self =
     (let health = health self in
      if health \<ge> 1700 then ''You are in ultimate health.''
      else if health > 1400 then ''You are in incredible health.''
      else if health > 1200 then ''You are in extraordinary health.''
      else if health > 1000 then ''You are in tremendous health.''
      else if health > 850 then ''You are in superior condition.''
      else if health > 700 then ''You are in exceptional health.''
      else if health > 500 then ''You are in good health.''
      else if health > 350 then ''You feel a little bit dazed.''
      else if health > 200 then ''You have some minor cuts and abrasions.''
      else if health > 100 then ''You are suffering from some serious wounds.''
      else if health > 50 then ''You are in critical condition.''
      else if health > 1 then ''You are near death.''
      else ''You are dead.'')"

text \<open>
  A method body that uses a global name loads it from the namespace of its module when the
  statement runs, and raises NameError when the name is bound neither there nor among the
  built-ins. The names bound in the global namespace of characters.py are its three
  imports and the class it defines; \<open>builtins_used\<close> are the built-in names its methods
  refer to.
\<close>

definition characters_globals :: "string list" where
  "characters_globals = [''DefaultCharacter'', ''cmdhandler'', ''target_msg'', ''Character'']"

definition builtins_used :: "string list" where
  "builtins_used = [''super'', ''max'']"

definition load_global :: "string list \<Rightarrow> string \<Rightarrow> error + unit" where
  "load_global globals name =
     (if name \<in> set globals \<or> name \<in> set builtins_used then Inr ()
      else Inl (NameError name))"

text \<open>
  Modelled from the spec: \<^verbatim>\<open>move_to\<close> belongs to the framework and is not among the
  sources; the spec has the death transition move the actor to the fallback location. The
  object leaves the contents of its room and is appended to those of the destination.
\<close>

definition move_to :: "world \<Rightarrow> ref \<Rightarrow> ref \<Rightarrow> world" where
  "move_to w self dest =
     (let src = location (w self);
          w1 = w(src := (w src)\<lparr>contents := removeAll self (contents (w src))\<rparr>);
          w2 = w1(dest := (w1 dest)\<lparr>contents := contents (w1 dest) @ [self]\<rparr>)
      in w2(self := (w2 self)\<lparr>location := dest\<rparr>))"

text \<open>
  \<^verbatim>\<open>Character.die\<close>, run in a module namespace \<open>globals\<close>. The call
  \<^verbatim>\<open>search_object("Limbo")\<close> first loads the global name \<^verbatim>\<open>search_object\<close>; the
  parameter \<open>lookup\<close> is the world lookup by name that the call reaches when the name is
  bound.
\<close>

definition die ::
  "string list \<Rightarrow> (string \<Rightarrow> ref option) \<Rightarrow> world \<Rightarrow> ref \<Rightarrow> (error + unit) \<times> world" where
  "die globals lookup w self =
     (case load_global globals ''search_object'' of
        Inl e \<Rightarrow> (Inl e, w)
      | Inr _ \<Rightarrow>
          (let the_void = lookup ''Limbo'';
               w1 = (case the_void of Some v \<Rightarrow> move_to w self v | None \<Rightarrow> w)
           in (Inr (), w1(self := (w1 self)\<lparr>health := 200\<rparr>))))"

text \<open>
  \<^verbatim>\<open>Character.at_weapon_hit\<close>. The formatter \<^verbatim>\<open>target_msg\<close> is imported from
  \<^verbatim>\<open>commands.combat\<close>, which is not among the sources, and is a parameter here. The
  method runs in the namespace of characters.py.
\<close>

definition at_weapon_hit ::
  "(string \<Rightarrow> string \<Rightarrow> int \<Rightarrow> string) \<Rightarrow> (string \<Rightarrow> ref option) \<Rightarrow>
     world \<Rightarrow> ref \<Rightarrow> ref \<Rightarrow> ref \<Rightarrow> int \<Rightarrow> (error + unit) \<times> world" where
  "at_weapon_hit target_msg lookup w self attacker weapon damage =
     (let w1 = msg w self (target_msg (key (w attacker)) (key (w weapon)) damage);
          w2 = w1(self := (w1 self)\<lparr>health := max (health (w1 self) - damage) 0\<rparr>);
          w3 = msg w2 self (self_health_msg (w2 self));
          w4 = msg_contents w3 (location (w3 self)) (health_msg (w3 self)) [self]
      in if health (w4 self) \<le> 0 then die characters_globals lookup w4 self else (Inr (), w4))"

section \<open>Notions used to state the properties\<close>

text \<open>
  A sequence of hits on one defender: every call starts from the world the previous call
  left behind; the worlds after each call are collected in order.
\<close>

fun apply_hits ::
  "(string \<Rightarrow> string \<Rightarrow> int \<Rightarrow> string) \<Rightarrow> (string \<Rightarrow> ref option) \<Rightarrow>
     world \<Rightarrow> ref \<Rightarrow> (ref \<times> ref \<times> int) list \<Rightarrow> world list" where
  "apply_hits tm lookup w self [] = []"
| "apply_hits tm lookup w self ((attacker, weapon, damage) # rest) =
     (let w' = snd (at_weapon_hit tm lookup w self attacker weapon damage)
      in w' # apply_hits tm lookup w' self rest)"

text \<open>
  The condition tiers, as the messages of the branches of \<open>self_health_msg\<close> and
  \<open>health_msg\<close>, listed from the last branch (dead) to the first (ultimate health). The
  tier of a message is its position in the table, so a larger tier is a better condition.
\<close>

definition self_tiers :: "string list" where
  "self_tiers =
     [''You are dead.'', ''You are near death.'', ''You are in critical condition.'',
      ''You are suffering from some serious wounds.'',
      ''You have some minor cuts and abrasions.'', ''You feel a little bit dazed.'',
      ''You are in good health.'', ''You are in exceptional health.'',
      ''You are in superior condition.'', ''You are in tremendous health.'',
      ''You are in extraordinary health.'', ''You are in incredible health.'',
      ''You are in ultimate health.'']"

definition health_tiers :: "string \<Rightarrow> string list" where
  "health_tiers k =
     map (\<lambda>phrase. k @ phrase)
       ['' is dead.'', '' is near death.'', '' is in critical condition.'',
        '' is suffering from some serious wounds.'', '' has some minor wounds.'',
        '' looks a little bit dazed.'', '' is in good health.'',
        '' is in exceptional health.'', '' is in superior condition.'',
        '' is in tremendous health.'', '' is in extraordinary health.'',
        '' is in incredible health.'', '' is in ultimate health.'']"

definition tier_of :: "string list \<Rightarrow> string \<Rightarrow> nat" where
  "tier_of tiers m = length (takeWhile (\<lambda>t. t \<noteq> m) tiers)"

text \<open>
  The hide attempt passes every check that precedes the cap check of \<open>hide\<close>: the room
  allows hiding, the roll of a hard-to-hide room (drawn only there) is at most 20, no other
  character is in the room, and the next roll is at least 25.
\<close>

definition passes_checks :: "world \<Rightarrow> rng \<Rightarrow> ref \<Rightarrow> bool" where
  "passes_checks w g hider =
     (let room = location (w hider);
          hard = (room_kind (w room) = HARD_TO_HIDE);
          g1 = (if hard then snd (randint 0 100 g) else g)
      in room_kind (w room) \<noteq> NO_HIDE
         \<and> (hard \<longrightarrow> fst (randint 0 100 g) \<le> 20)
         \<and> num_unhidden_others w room hider = 0
         \<and> 25 \<le> fst (randint 0 100 g1))"

subsection \<open>A small world for concrete runs\<close>

text \<open>
  The Crypt (10) holds the characters alice (11) and bob (12) and a sword (13); the Cave
  (20) holds only a rat (21), a mobile that is not of the Character typeclass; the Chapel
  (30), where nobody can hide, holds the characters carol (31) and dave (32); the Cellar
  (40) holds erin (41) alone. Limbo is room 50.
\<close>

definition blank :: obj where
  "blank = \<lparr>key = [], is_character = False, location = 0, contents = [],
            room_kind = NORMAL, health = 0, max_health = 0, hiding = 0, level = 1,
            inbox = []\<rparr>"

definition a_room :: "string \<Rightarrow> RoomKind \<Rightarrow> ref \<Rightarrow> ref list \<Rightarrow> obj" where
  "a_room name kind self occupants =
     blank\<lparr>key := name, room_kind := kind, location := self, contents := occupants\<rparr>"

definition a_character :: "string \<Rightarrow> ref \<Rightarrow> int \<Rightarrow> int \<Rightarrow> int \<Rightarrow> obj" where
  "a_character name room hp conceal lvl =
     blank\<lparr>key := name, is_character := True, location := room, health := hp,
           max_health := 1000, hiding := conceal, level := lvl\<rparr>"

definition demo_world :: world where
  "demo_world =
     (\<lambda>_. blank)
       (10 := a_room ''Crypt'' NORMAL 10 [11, 12, 13],
        11 := a_character ''alice'' 10 1000 0 3,
        12 := a_character ''bob'' 10 40 1 3,
        13 := blank\<lparr>key := ''sword'', location := 10\<rparr>,
        20 := a_room ''Cave'' NORMAL 20 [21],
        21 := blank\<lparr>key := ''rat'', location := 20, health := 1000, max_health := 1000\<rparr>,
        30 := a_room ''Chapel'' NO_HIDE 30 [31, 32],
        31 := a_character ''carol'' 30 1000 0 3,
        32 := a_character ''dave'' 30 1000 15 20,
        40 := a_room ''Cellar'' NORMAL 40 [41],
        41 := a_character ''erin'' 40 1000 4 3,
        50 := a_room ''Limbo'' NORMAL 50 [])"

text \<open>The same world with erin at concealment 2, below her level 3.\<close>

definition demo_world2 :: world where
  "demo_world2 = demo_world(41 := a_character ''erin'' 40 1000 2 3)"

definition demo_lookup :: "string \<Rightarrow> ref option" where
  "demo_lookup name = (if name = ''Limbo'' then Some 50 else None)"

text \<open>A stand-in for the absent formatter of the strike notice.\<close>

definition demo_target_msg :: "string \<Rightarrow> string \<Rightarrow> int \<Rightarrow> string" where
  "demo_target_msg attacker weapon damage =
     attacker @ '' hits you with the '' @ weapon @ ''.''"

section \<open>Messaging only touches inboxes\<close>

lemma msg_inbox: "inbox (msg w r t x) = (if x = r then inbox (w r) @ [t] else inbox (w x))"
  by (simp add: msg_def)

lemma msg_frame: "(msg w r t x)\<lparr>inbox := i\<rparr> = (w x)\<lparr>inbox := i\<rparr>"
  by (simp add: msg_def)

lemma msg_each_frame: "(msg_each w rs t ex x)\<lparr>inbox := i\<rparr> = (w x)\<lparr>inbox := i\<rparr>"
  unfolding msg_each_def
proof (induction rs arbitrary: w)
  case Nil
  show ?case by simp
next
  case (Cons r rs)
  show ?case by (simp add: Cons.IH msg_frame)
qed

lemma msg_each_inbox:
  "inbox (msg_each w rs t ex x) =
     inbox (w x) @ replicate (if x \<in> set ex then 0 else count_list rs x) t"
  unfolding msg_each_def
proof (induction rs arbitrary: w)
  case Nil
  show ?case by simp
next
  case (Cons r rs)
  show ?case by (simp add: Cons.IH msg_inbox replicate_app_Cons_same)
qed

lemma frame_fields:
  assumes "a\<lparr>inbox := []\<rparr> = b\<lparr>inbox := []\<rparr>"
  shows "key a = key b" "is_character a = is_character b" "location a = location b"
    "contents a = contents b" "room_kind a = room_kind b" "health a = health b"
    "max_health a = max_health b" "hiding a = hiding b" "level a = level b"
  using assms by (cases a; cases b; simp)+

lemmas msg_fields = frame_fields [OF msg_frame]

lemmas msg_each_fields = frame_fields [OF msg_each_frame]

lemma demo_simps:
  "demo_world 10 = a_room ''Crypt'' NORMAL 10 [11, 12, 13]"
  "demo_world 11 = a_character ''alice'' 10 1000 0 3"
  "demo_world 12 = a_character ''bob'' 10 40 1 3"
  "demo_world 13 = blank\<lparr>key := ''sword'', location := 10\<rparr>"
  "demo_world 20 = a_room ''Cave'' NORMAL 20 [21]"
  "demo_world 21 = blank\<lparr>key := ''rat'', location := 20, health := 1000, max_health := 1000\<rparr>"
  "demo_world 30 = a_room ''Chapel'' NO_HIDE 30 [31, 32]"
  "demo_world 31 = a_character ''carol'' 30 1000 0 3"
  "demo_world 32 = a_character ''dave'' 30 1000 15 20"
  "demo_world 40 = a_room ''Cellar'' NORMAL 40 [41]"
  "demo_world 41 = a_character ''erin'' 40 1000 4 3"
  "demo_world 50 = a_room ''Limbo'' NORMAL 50 []"
  by (simp_all add: demo_world_def)

lemmas demo_defs = demo_simps a_room_def a_character_def blank_def

section \<open>Applying damage\<close>

lemma hit_contents:
  "contents (((msg w self t)(self := (msg w self t self)\<lparr>health := h\<rparr>)) r) = contents (w r)"
  by (simp add: msg_def)

text \<open>
  C7. A defender at health 1000 that is hit for 150 ends at health 850. The call returns
  normally. The defender receives the strike notice and then "You are in exceptional
  health." (850 is not above 850, the next threshold down is 700); every other object
  receives "<key> is in exceptional health." once for each time it is listed in the
  contents of the defender's room, the defender itself receives no broadcast; and no
  death transition takes place: the defender stays where it is and its health is not
  reset.
\<close>

theorem hit_1000_by_150:
  "health (w self) = 1000 \<Longrightarrow>
     fst (at_weapon_hit tm lookup w self attacker weapon 150) = Inr ()
     \<and> health (snd (at_weapon_hit tm lookup w self attacker weapon 150) self) = 850
     \<and> location (snd (at_weapon_hit tm lookup w self attacker weapon 150) self)
         = location (w self)
     \<and> inbox (snd (at_weapon_hit tm lookup w self attacker weapon 150) self) =
           inbox (w self)
             @ [tm (key (w attacker)) (key (w weapon)) 150, ''You are in exceptional health.'']
     \<and> (\<forall>x. x \<noteq> self \<longrightarrow>
           inbox (snd (at_weapon_hit tm lookup w self attacker weapon 150) x) =
             inbox (w x) @ replicate (count_list (contents (w (location (w self)))) x)
                            (key (w self) @ '' is in exceptional health.''))"
  by (simp add: at_weapon_hit_def Let_def msg_contents_def msg_each_fields msg_each_inbox
        msg_fields msg_inbox self_health_msg_def health_msg_def hit_contents)

theorem hit_1000_by_150_witness:
  "health (demo_world 11) = 1000
   \<and> fst (at_weapon_hit demo_target_msg demo_lookup demo_world 11 12 13 150) = Inr ()
   \<and> health (snd (at_weapon_hit demo_target_msg demo_lookup demo_world 11 12 13 150) 11) = 850
   \<and> inbox (snd (at_weapon_hit demo_target_msg demo_lookup demo_world 11 12 13 150) 11) =
        [''bob hits you with the sword.'', ''You are in exceptional health.'']
   \<and> inbox (snd (at_weapon_hit demo_target_msg demo_lookup demo_world 11 12 13 150) 12) =
        [''alice is in exceptional health.'']"
proof -
  have h: "health (demo_world 11) = 1000"
    by (simp add: demo_defs)
  note r = hit_1000_by_150 [where w = demo_world and self = 11 and tm = demo_target_msg
      and lookup = demo_lookup and attacker = 12 and weapon = 13, OF h]
  from r have
    "inbox (snd (at_weapon_hit demo_target_msg demo_lookup demo_world 11 12 13 150) 12) =
       inbox (demo_world 12)
         @ replicate (count_list (contents (demo_world (location (demo_world 11)))) 12)
             (key (demo_world 11) @ '' is in exceptional health.'')"
    by simp
  then have other:
    "inbox (snd (at_weapon_hit demo_target_msg demo_lookup demo_world 11 12 13 150) 12) =
       [''alice is in exceptional health.'']"
    by (simp add: demo_defs)
  from r have own:
    "inbox (snd (at_weapon_hit demo_target_msg demo_lookup demo_world 11 12 13 150) 11) =
       [''bob hits you with the sword.'', ''You are in exceptional health.'']"
    by (simp add: demo_defs demo_target_msg_def)
  show ?thesis using h r own other by simp
qed

section \<open>The death transition\<close>

text \<open>
  characters.py never binds \<^verbatim>\<open>search_object\<close>, so the first statement of \<^verbatim>\<open>die\<close>
  raises NameError before anything is moved or reset, whatever the lookup would answer.
\<close>

lemma die_raises:
  "die characters_globals lookup w self = (Inl (NameError ''search_object''), w)"
  by (simp add: die_def load_global_def characters_globals_def builtins_used_def)

text \<open>
  In a namespace that does bind the name, the same body returns normally and resets the
  health to 200, whether or not Limbo resolves.
\<close>

lemma die_with_import:
  "''search_object'' \<in> set globals \<Longrightarrow>
     fst (die globals lookup w self) = Inr ()
     \<and> health (snd (die globals lookup w self) self) = 200"
  by (simp add: die_def load_global_def Let_def)

lemma hit_health:
  "health (snd (at_weapon_hit tm lookup w self attacker weapon damage) self)
     = max (health (w self) - damage) 0"
  by (simp add: at_weapon_hit_def Let_def die_raises msg_contents_def msg_each_fields
        msg_fields)

lemma hit_max_health:
  "max_health (snd (at_weapon_hit tm lookup w self attacker weapon damage) self)
     = max_health (w self)"
  by (simp add: at_weapon_hit_def Let_def die_raises msg_contents_def msg_each_fields
        msg_fields)

lemma hit_outcome:
  "fst (at_weapon_hit tm lookup w self attacker weapon damage)
     = (if health (w self) - damage \<le> 0 then Inl (NameError ''search_object'') else Inr ())"
  by (simp add: at_weapon_hit_def Let_def die_raises msg_contents_def msg_each_fields
        msg_fields)

text \<open>
  C1. The claim is that a defender whose health is driven to 0 ends the call with health
  200 and that nothing is raised to the caller, whether or not Limbo resolves. On the code
  it fails: bob, at health 40, is hit for 60 in a world where Limbo does resolve; the call
  raises NameError for \<^verbatim>\<open>search_object\<close> and bob is left at health 0.
\<close>

theorem lethal_hit_raises:
  "fst (at_weapon_hit demo_target_msg demo_lookup demo_world 12 11 13 60)
     = Inl (NameError ''search_object'')
   \<and> health (snd (at_weapon_hit demo_target_msg demo_lookup demo_world 12 11 13 60) 12) = 0
   \<and> demo_lookup ''Limbo'' = Some 50"
  by (simp add: hit_outcome hit_health demo_defs demo_lookup_def)

section \<open>The health invariant\<close>

text \<open>
  C2, as claimed: after any call with any integer damage, the health lies between 0 and
  the maximum. It fails for a negative amount, which is not treated as zero: alice, at
  1000 of 1000, hit for -500 ends at 1500.
\<close>

theorem negative_damage_counterexample:
  "0 \<le> health (demo_world 11) \<and> health (demo_world 11) \<le> max_health (demo_world 11) \<and>
   \<not> health (snd (at_weapon_hit demo_target_msg demo_lookup demo_world 11 12 13 (- 500)) 11)
      \<le> max_health
           (snd (at_weapon_hit demo_target_msg demo_lookup demo_world 11 12 13 (- 500)) 11)"
  by (simp add: hit_health hit_max_health demo_defs)

lemma apply_hits_length: "length (apply_hits tm lookup w self hs) = length hs"
proof (induction hs arbitrary: w)
  case Nil
  show ?case by simp
next
  case (Cons h hs)
  obtain a wp d where h: "h = (a, wp, d)" by (cases h)
  show ?case by (simp add: h Let_def Cons.IH)
qed

lemma apply_hits_lower:
  "\<forall>w' \<in> set (apply_hits tm lookup w self hs). 0 \<le> health (w' self)"
proof (induction hs arbitrary: w)
  case Nil
  show ?case by simp
next
  case (Cons h hs)
  obtain a wp d where h: "h = (a, wp, d)" by (cases h)
  show ?case using Cons.IH by (simp add: h Let_def hit_health)
qed

lemma apply_hits_upper:
  "health (w self) \<le> max_health (w self) \<Longrightarrow> 0 \<le> max_health (w self) \<Longrightarrow>
   \<forall>h \<in> set hs. 0 \<le> snd (snd h) \<Longrightarrow>
   \<forall>w' \<in> set (apply_hits tm lookup w self hs). health (w' self) \<le> max_health (w' self)"
proof (induction hs arbitrary: w)
  case Nil
  show ?case by simp
next
  case (Cons h hs)
  obtain a wp d where h: "h = (a, wp, d)" by (cases h)
  let ?w' = "snd (at_weapon_hit tm lookup w self a wp d)"
  from Cons.prems h have d: "0 \<le> d" by simp
  have 1: "health (?w' self) \<le> max_health (?w' self)"
    using Cons.prems(1,2) d by (simp add: hit_health hit_max_health)
  have 2: "0 \<le> max_health (?w' self)" using Cons.prems(2) by (simp add: hit_max_health)
  have 3: "\<forall>h \<in> set hs. 0 \<le> snd (snd h)" using Cons.prems(3) by simp
  show ?case using Cons.IH [where w = ?w', OF 1 2 3] 1 by (simp add: h Let_def)
qed

text \<open>
  C2, amended. Over any sequence of hits on one defender there is one world after each
  call, and in each of them the defender's health is at least 0, for arbitrary integer
  amounts. If the defender starts between 0 and its maximum and no amount is negative,
  the health is also at most the maximum after each call.
\<close>

theorem health_bounds_after_hits:
  "length (apply_hits tm lookup w self hs) = length hs
   \<and> (\<forall>w' \<in> set (apply_hits tm lookup w self hs). 0 \<le> health (w' self))
   \<and> (0 \<le> health (w self) \<and> health (w self) \<le> max_health (w self)
        \<and> (\<forall>h \<in> set hs. 0 \<le> snd (snd h))
      \<longrightarrow> (\<forall>w' \<in> set (apply_hits tm lookup w self hs).
             health (w' self) \<le> max_health (w' self)))"
proof (intro conjI impI)
  show "length (apply_hits tm lookup w self hs) = length hs"
    by (rule apply_hits_length)
  show "\<forall>w' \<in> set (apply_hits tm lookup w self hs). 0 \<le> health (w' self)"
    by (rule apply_hits_lower)
next
  assume a: "0 \<le> health (w self) \<and> health (w self) \<le> max_health (w self)
               \<and> (\<forall>h \<in> set hs. 0 \<le> snd (snd h))"
  then have 1: "health (w self) \<le> max_health (w self)" and 2: "0 \<le> max_health (w self)"
    and 3: "\<forall>h \<in> set hs. 0 \<le> snd (snd h)"
    by simp_all
  show "\<forall>w' \<in> set (apply_hits tm lookup w self hs).
          health (w' self) \<le> max_health (w' self)"
    by (rule apply_hits_upper [where w = w and self = self, OF 1 2 3])
qed

theorem health_bounds_after_hits_witness:
  "0 \<le> health (demo_world 11) \<and> health (demo_world 11) \<le> max_health (demo_world 11)
   \<and> list_all (\<lambda>h. (0::int) \<le> snd (snd h))
        [(12::nat, 13::nat, 150), (12, 13, 0), (12, 13, 2000)]
   \<and> map (\<lambda>w'. health (w' 11))
        (apply_hits demo_target_msg demo_lookup demo_world 11
           [(12, 13, 150), (12, 13, 0), (12, 13, 2000)]) = [850, 850, 0]
   \<and> list_all (\<lambda>w'. 0 \<le> health (w' 11) \<and> health (w' 11) \<le> max_health (w' 11))
        (apply_hits demo_target_msg demo_lookup demo_world 11
           [(12, 13, 150), (12, 13, 0), (12, 13, 2000)])"
proof -
  have h: "0 \<le> health (demo_world 11) \<and> health (demo_world 11) \<le> max_health (demo_world 11)
             \<and> (\<forall>h \<in> set [(12::nat, 13::nat, 150), (12, 13, 0), (12, 13, 2000)].
                  (0::int) \<le> snd (snd h))"
    by (simp add: demo_defs)
  have m: "map (\<lambda>w'. health (w' 11))
        (apply_hits demo_target_msg demo_lookup demo_world 11
           [(12, 13, 150), (12, 13, 0), (12, 13, 2000)]) = [850, 850, 0]"
    by (simp add: Let_def hit_health demo_defs)
  note t = health_bounds_after_hits [where w = demo_world and self = 11
        and tm = demo_target_msg and lookup = demo_lookup
        and hs = "[(12, 13, 150), (12, 13, 0), (12, 13, 2000)]"]
  from t h have
    "\<forall>w' \<in> set (apply_hits demo_target_msg demo_lookup demo_world 11
                     [(12, 13, 150), (12, 13, 0), (12, 13, 2000)]).
         0 \<le> health (w' 11) \<and> health (w' 11) \<le> max_health (w' 11)"
    by blast
  then have c: "list_all (\<lambda>w'. 0 \<le> health (w' 11) \<and> health (w' 11) \<le> max_health (w' 11))
        (apply_hits demo_target_msg demo_lookup demo_world 11
           [(12, 13, 150), (12, 13, 0), (12, 13, 2000)])"
    unfolding list_all_iff .
  have l: "list_all (\<lambda>h. (0::int) \<le> snd (snd h))
        [(12::nat, 13::nat, 150), (12, 13, 0), (12, 13, 2000)]"
    by simp
  from h have h1: "0 \<le> health (demo_world 11)"
    and h2: "health (demo_world 11) \<le> max_health (demo_world 11)"
    by simp_all
  show ?thesis by (intro conjI) (rule h1 h2 l m c)+
qed

section \<open>Hiding and revealing\<close>

lemma num_loop_count:
  "num_unhidden_others_loop w xs hider n
     = n + length (filter (\<lambda>x. is_character (w x) \<and> x \<noteq> hider) xs)"
  by (induction xs arbitrary: n) simp_all

lemma num_unhidden_others_pos:
  "(0 < num_unhidden_others w room hider)
     = (\<exists>x \<in> set (contents (w room)). is_character (w x) \<and> x \<noteq> hider)"
  by (simp add: num_unhidden_others_def num_loop_count filter_empty_conv)

lemma hide_watched:
  assumes "0 < num_unhidden_others w (location (w h)) h"
  shows "fst (hide w g h) =
     msg w h
       (if room_kind (w (location (w h))) = NO_HIDE then ''There is no room to hide here.''
        else if room_kind (w (location (w h))) = HARD_TO_HIDE \<and> 20 < fst (randint 0 100 g)
        then ''You couldn't find a place to hide.''
        else if 0 < hiding (w h) then ''You can't hide any better with people in the room.''
        else ''You can't hide when people are watching you.'')"
  using assms by (simp add: hide_def Let_def split_beta)

lemma hide_hiding_cases:
  "hiding (fst (hide w g h) x) =
     (if x = h \<and> passes_checks w g h \<and> hiding (w h) \<le> level (w h)
      then hiding (w h) + 1 else hiding (w x))"
  by (cases "room_kind (w (location (w h))) = HARD_TO_HIDE")
     (simp_all add: hide_def passes_checks_def Let_def split_beta msg_fields)

lemma hide_level: "level (fst (hide w g h) x) = level (w x)"
  by (simp add: hide_def Let_def split_beta msg_fields)

lemma hide_capped:
  "passes_checks w g h \<Longrightarrow> level (w h) < hiding (w h) \<Longrightarrow>
   fst (hide w g h) = msg w h
      ''You're pretty well hidden now.  I don't think you could be any less visible.''"
  by (cases "room_kind (w (location (w h))) = HARD_TO_HIDE")
     (simp_all add: hide_def passes_checks_def Let_def split_beta)

lemma reveal_hiding: "hiding (reveal w h x) = (if x = h then 0 else hiding (w x))"
  by (simp add: reveal_def Let_def msg_contents_def msg_each_fields msg_fields)

lemma reveal_inbox_visible:
  "hiding (w h) = 0 \<Longrightarrow> reveal w h = msg w h ''You were not hiding.''"
  by (simp add: reveal_def)

lemma reveal_inbox_hidden:
  "hiding (w h) \<noteq> 0 \<Longrightarrow>
     inbox (reveal w h x) =
       (if x = h then inbox (w h) @ [''You are no longer hiding.'']
        else inbox (w x) @ replicate (count_list (contents (w (location (w h)))) x)
                             (key (w h) @ '' has stepped out of the shadows.''))"
  by (simp add: reveal_def Let_def msg_contents_def msg_each_inbox msg_fields msg_inbox
       msg_def)

lemma demo2_simps:
  "demo_world2 40 = a_room ''Cellar'' NORMAL 40 [41]"
  "demo_world2 41 = a_character ''erin'' 40 1000 2 3"
  by (simp_all add: demo_world2_def demo_simps)

text \<open>
  C4, as claimed: with another character in the room, hide fails with a message that
  depends on whether the actor is already concealed. It fails in a room where nobody can
  hide: in the Chapel carol (not concealed) and dave (concealed at 15) watch each other
  and both are told "There is no room to hide here."
\<close>

theorem hide_no_hide_room_counterexample:
  "is_character (demo_world 32) \<and> 32 \<in> set (contents (demo_world (location (demo_world 31))))
   \<and> (32::nat) \<noteq> 31 \<and> hiding (demo_world 31) = 0
   \<and> inbox (fst (hide demo_world (sconst 0) 31) 31) = [''There is no room to hide here.'']
   \<and> is_character (demo_world 31) \<and> 31 \<in> set (contents (demo_world (location (demo_world 32))))
   \<and> (31::nat) \<noteq> 32 \<and> hiding (demo_world 32) = 15
   \<and> inbox (fst (hide demo_world (sconst 0) 32) 32) = [''There is no room to hide here.'']"
  by (simp add: hide_def Let_def msg_inbox demo_defs)

text \<open>
  C4, amended. When the contents of the actor's room hold another object of the Character
  typeclass, hide changes no concealment level, whatever the rolls, and delivers exactly
  one message to the actor: the no-hide-room message in a NO_HIDE room, the
  hard-to-hide message in a HARD_TO_HIDE room when the roll exceeds 20, and otherwise
  "You can't hide any better with people in the room." when the actor is already
  concealed and "You can't hide when people are watching you." when not.
\<close>

theorem hide_watched_no_change:
  "\<exists>x \<in> set (contents (w (location (w h)))). is_character (w x) \<and> x \<noteq> h \<Longrightarrow>
     (\<forall>x. hiding (fst (hide w g h) x) = hiding (w x))
     \<and> fst (hide w g h) =
         msg w h
           (if room_kind (w (location (w h))) = NO_HIDE then ''There is no room to hide here.''
            else if room_kind (w (location (w h))) = HARD_TO_HIDE \<and> 20 < fst (randint 0 100 g)
            then ''You couldn't find a place to hide.''
            else if 0 < hiding (w h) then ''You can't hide any better with people in the room.''
            else ''You can't hide when people are watching you.'')"
proof -
  assume "\<exists>x \<in> set (contents (w (location (w h)))). is_character (w x) \<and> x \<noteq> h"
  then have pos: "0 < num_unhidden_others w (location (w h)) h"
    by (simp add: num_unhidden_others_pos)
  have "\<not> passes_checks w g h"
    using pos by (simp add: passes_checks_def Let_def)
  then have "\<forall>x. hiding (fst (hide w g h) x) = hiding (w x)"
    by (simp add: hide_hiding_cases)
  with hide_watched [OF pos] show ?thesis by blast
qed

theorem hide_watched_no_change_witness:
  "(\<exists>x \<in> set (contents (demo_world (location (demo_world 11)))).
       is_character (demo_world x) \<and> x \<noteq> 11)
   \<and> hiding (fst (hide demo_world (sconst 70) 11) 11) = hiding (demo_world 11)
   \<and> inbox (fst (hide demo_world (sconst 70) 11) 11)
       = [''You can't hide when people are watching you.'']
   \<and> (\<exists>x \<in> set (contents (demo_world (location (demo_world 12)))).
       is_character (demo_world x) \<and> x \<noteq> 12)
   \<and> hiding (fst (hide demo_world (sconst 70) 12) 12) = hiding (demo_world 12)
   \<and> inbox (fst (hide demo_world (sconst 70) 12) 12)
       = [''You can't hide any better with people in the room.'']"
proof -
  have a: "\<exists>x \<in> set (contents (demo_world (location (demo_world 11)))).
             is_character (demo_world x) \<and> x \<noteq> 11"
    by (simp add: demo_defs)
  have b: "\<exists>x \<in> set (contents (demo_world (location (demo_world 12)))).
             is_character (demo_world x) \<and> x \<noteq> 12"
    by (simp add: demo_defs)
  note ra = hide_watched_no_change [where w = demo_world and h = 11 and g = "sconst 70", OF a]
  note rb = hide_watched_no_change [where w = demo_world and h = 12 and g = "sconst 70", OF b]
  have ia: "inbox (fst (hide demo_world (sconst 70) 11) 11)
       = [''You can't hide when people are watching you.'']"
    using ra by (simp add: msg_inbox demo_defs)
  have ib: "inbox (fst (hide demo_world (sconst 70) 12) 12)
       = [''You can't hide any better with people in the room.'']"
    using rb by (simp add: msg_inbox demo_defs)
  show ?thesis using a b ra rb ia ib by blast
qed

text \<open>
  C5. A hide call keeps the concealment level within level + 1. When the attempt reaches
  the cap check with the concealment above the level, the actor is told that they could
  not be any less visible and the concealment stays as it is; when it reaches the cap
  check otherwise, the concealment grows by exactly 1; when it does not reach the cap
  check, the concealment stays as it is.
\<close>

theorem hide_respects_cap:
  "(hiding (w h) \<le> level (w h) + 1
      \<longrightarrow> hiding (fst (hide w g h) h) \<le> level (fst (hide w g h) h) + 1)
   \<and> (passes_checks w g h \<and> level (w h) < hiding (w h)
      \<longrightarrow> fst (hide w g h) = msg w h
            ''You're pretty well hidden now.  I don't think you could be any less visible.''
          \<and> hiding (fst (hide w g h) h) = hiding (w h))
   \<and> (passes_checks w g h \<and> hiding (w h) \<le> level (w h)
      \<longrightarrow> hiding (fst (hide w g h) h) = hiding (w h) + 1)
   \<and> (\<not> passes_checks w g h \<longrightarrow> hiding (fst (hide w g h) h) = hiding (w h))"
  by (simp add: hide_hiding_cases hide_level hide_capped msg_fields)

theorem hide_respects_cap_witness:
  "hiding (demo_world 41) \<le> level (demo_world 41) + 1
   \<and> passes_checks demo_world (sconst 50) 41
   \<and> level (demo_world 41) < hiding (demo_world 41)
   \<and> inbox (fst (hide demo_world (sconst 50) 41) 41) =
        [''You're pretty well hidden now.  I don't think you could be any less visible.'']
   \<and> hiding (fst (hide demo_world (sconst 50) 41) 41) = 4
   \<and> passes_checks demo_world2 (sconst 50) 41
   \<and> hiding (demo_world2 41) \<le> level (demo_world2 41)
   \<and> hiding (fst (hide demo_world2 (sconst 50) 41) 41) = 3
   \<and> \<not> passes_checks demo_world (sconst 0) 41
   \<and> hiding (fst (hide demo_world (sconst 0) 41) 41) = 4"
proof -
  have p1: "passes_checks demo_world (sconst 50) 41"
    by (simp add: passes_checks_def Let_def num_unhidden_others_def randint_def demo_defs)
  have p2: "passes_checks demo_world2 (sconst 50) 41"
    by (simp add: passes_checks_def Let_def num_unhidden_others_def randint_def demo2_simps
          a_room_def a_character_def blank_def)
  have p3: "\<not> passes_checks demo_world (sconst 0) 41"
    by (simp add: passes_checks_def Let_def num_unhidden_others_def randint_def demo_defs)
  have h1: "hiding (demo_world 41) = 4" "level (demo_world 41) = 3"
    by (simp_all add: demo_defs)
  have h2: "hiding (demo_world2 41) = 2" "level (demo_world2 41) = 3"
    by (simp_all add: demo2_simps a_character_def blank_def)
  have i: "inbox (demo_world 41) = []" by (simp add: demo_defs)
  note r1 = hide_respects_cap [where w = demo_world and g = "sconst 50" and h = 41]
  note r2 = hide_respects_cap [where w = demo_world2 and g = "sconst 50" and h = 41]
  note r3 = hide_respects_cap [where w = demo_world and g = "sconst 0" and h = 41]
  from r1 p1 h1 have e: "fst (hide demo_world (sconst 50) 41) = msg demo_world 41
      ''You're pretty well hidden now.  I don't think you could be any less visible.''"
    by simp
  have m: "inbox (fst (hide demo_world (sconst 50) 41) 41) =
        [''You're pretty well hidden now.  I don't think you could be any less visible.'']"
    unfolding e by (simp add: msg_inbox i)
  have k1: "hiding (fst (hide demo_world (sconst 50) 41) 41) = 4"
    using r1 p1 h1 by (simp add: msg_fields)
  have k2: "hiding (fst (hide demo_world2 (sconst 50) 41) 41) = 3"
    using r2 p2 h2 by simp
  have k3: "hiding (fst (hide demo_world (sconst 0) 41) 41) = 4"
    using r3 p3 h1 by simp
  show ?thesis using p1 p2 p3 h1 h2 m k1 k2 k3 by simp
qed

lemma reveal_frame_visible:
  "hiding (w h) = 0 \<Longrightarrow> (reveal w h x)\<lparr>inbox := []\<rparr> = (w x)\<lparr>inbox := []\<rparr>"
  by (simp add: reveal_inbox_visible msg_frame)

text \<open>
  C6. After reveal the actor's concealment is 0. Called at concealment 0 it only delivers
  "You were not hiding." to the actor, and does so again when repeated, no other field of
  any object changing. Called at a concealment other than 0 it tells the actor "You are
  no longer hiding." and delivers "<key> has stepped out of the shadows." to every other
  object once for each time the contents of the actor's room list it (so not at all
  outside the room), leaving their concealment alone.
\<close>

theorem reveal_ends_visible:
  "hiding (reveal w h h) = 0
   \<and> (hiding (w h) = 0 \<longrightarrow>
        reveal w h = msg w h ''You were not hiding.''
        \<and> reveal (reveal w h) h
            = msg (msg w h ''You were not hiding.'') h ''You were not hiding.''
        \<and> (\<forall>x. (reveal w h x)\<lparr>inbox := []\<rparr> = (w x)\<lparr>inbox := []\<rparr>))
   \<and> (hiding (w h) \<noteq> 0 \<longrightarrow>
        inbox (reveal w h h) = inbox (w h) @ [''You are no longer hiding.'']
        \<and> (\<forall>x. x \<noteq> h \<longrightarrow>
              hiding (reveal w h x) = hiding (w x)
              \<and> inbox (reveal w h x) =
                  inbox (w x) @ replicate (count_list (contents (w (location (w h)))) x)
                                  (key (w h) @ '' has stepped out of the shadows.'')))"
proof (intro conjI impI allI)
  show "hiding (reveal w h h) = 0" by (simp add: reveal_hiding)
next
  assume v: "hiding (w h) = 0"
  show 1: "reveal w h = msg w h ''You were not hiding.''"
    using v by (rule reveal_inbox_visible)
  have "hiding (msg w h ''You were not hiding.'' h) = 0"
    using v by (simp add: msg_fields)
  then show "reveal (reveal w h) h
            = msg (msg w h ''You were not hiding.'') h ''You were not hiding.''"
    unfolding 1 by (rule reveal_inbox_visible)
  fix x show "(reveal w h x)\<lparr>inbox := []\<rparr> = (w x)\<lparr>inbox := []\<rparr>"
    using v by (rule reveal_frame_visible)
next
  assume n: "hiding (w h) \<noteq> 0"
  show "inbox (reveal w h h) = inbox (w h) @ [''You are no longer hiding.'']"
    by (simp add: reveal_inbox_hidden [where w = w and h = h, OF n])
  fix x assume "x \<noteq> h"
  then show "hiding (reveal w h x) = hiding (w x)" by (simp add: reveal_hiding)
  from \<open>x \<noteq> h\<close> show "inbox (reveal w h x) =
                  inbox (w x) @ replicate (count_list (contents (w (location (w h)))) x)
                                  (key (w h) @ '' has stepped out of the shadows.'')"
    by (simp add: reveal_inbox_hidden [where w = w and h = h, OF n])
qed

theorem reveal_ends_visible_witness:
  "hiding (demo_world 12) \<noteq> 0
   \<and> hiding (reveal demo_world 12 12) = 0
   \<and> inbox (reveal demo_world 12 12) = [''You are no longer hiding.'']
   \<and> (11::nat) \<noteq> 12
   \<and> inbox (reveal demo_world 12 11) = [''bob has stepped out of the shadows.'']
   \<and> hiding (demo_world 11) = 0
   \<and> inbox (reveal demo_world 11 11) = [''You were not hiding.'']
   \<and> inbox (reveal (reveal demo_world 11) 11 11)
       = [''You were not hiding.'', ''You were not hiding.'']
   \<and> hiding (reveal (reveal demo_world 11) 11 11) = 0"
proof -
  have n: "hiding (demo_world 12) \<noteq> 0" and v: "hiding (demo_world 11) = 0"
    by (simp_all add: demo_defs)
  note r = reveal_ends_visible [where w = demo_world and h = 12]
  note s = reveal_ends_visible [where w = demo_world and h = 11]
  from r n have "inbox (reveal demo_world 12 11) =
      inbox (demo_world 11)
        @ replicate (count_list (contents (demo_world (location (demo_world 12)))) 11)
            (key (demo_world 12) @ '' has stepped out of the shadows.'')"
    by simp
  then have a: "inbox (reveal demo_world 12 11) = [''bob has stepped out of the shadows.'']"
    by (simp add: demo_defs)
  from r n have b: "inbox (reveal demo_world 12 12) = [''You are no longer hiding.'']"
    by (simp add: demo_defs)
  from s v have c: "inbox (reveal demo_world 11 11) = [''You were not hiding.'']"
    by (simp add: msg_inbox demo_defs)
  from s v have eq: "reveal (reveal demo_world 11) 11
       = msg (msg demo_world 11 ''You were not hiding.'') 11 ''You were not hiding.''"
    by blast
  have d: "inbox (reveal (reveal demo_world 11) 11 11)
       = [''You were not hiding.'', ''You were not hiding.'']"
    unfolding eq by (simp add: msg_inbox demo_defs)
  have e: "hiding (reveal (reveal demo_world 11) 11 11) = 0"
    using reveal_ends_visible [where w = "reveal demo_world 11" and h = 11] by simp
  have f: "hiding (reveal demo_world 12 12) = 0" using r by blast
  show ?thesis using n v a b c d e f by simp
qed

section \<open>Searching\<close>

lemma randint_range: "a \<le> b \<Longrightarrow> a \<le> fst (randint a b g) \<and> fst (randint a b g) \<le> b"
proof -
  assume ab: "a \<le> b"
  have "shd g mod nat (b - a + 1) < nat (b - a + 1)"
    using ab by (intro mod_less_divisor) simp
  then have "int (shd g mod nat (b - a + 1)) < b - a + 1"
    using ab by linarith
  then show ?thesis by (simp add: randint_def)
qed

lemma discovery_roll_le: "fst (randint 0 MAX_HIDE g) \<le> 15"
  using randint_range [of 0 MAX_HIDE g] by (simp add: MAX_HIDE_def)

lemma reveal_people_loop_keeps:
  "15 \<le> hiding (w a) \<Longrightarrow>
     hiding (fst (snd (reveal_people_loop n cs w g s)) a) = hiding (w a)"
proof (induction n arbitrary: g)
  case 0
  show ?case by simp
next
  case (Suc n)
  show ?case
  proof (cases "cs = []")
    case True
    then show ?thesis by (simp add: choice_def)
  next
    case False
    let ?p = "cs ! (shd g mod length cs)"
    let ?d = "fst (randint 0 MAX_HIDE (stl g))"
    have ch: "choice cs g = (Inr ?p, stl g)" using False by (simp add: choice_def)
    show ?thesis
    proof (cases "?p \<noteq> s \<and> is_hiding (w ?p) \<and> ?d > hiding (w ?p)")
      case True
      then have "hiding (w ?p) < 15" using discovery_roll_le [of "stl g"] by linarith
      with Suc.prems have ne: "?p \<noteq> a" by auto
      show ?thesis using True ne
        by (simp add: ch split_beta Let_def msg_contents_def msg_each_fields msg_fields)
    next
      case False
      then show ?thesis using Suc.IH [OF Suc.prems]
        by (auto simp add: ch split_beta Let_def)
    qed
  qed
qed

lemma search_world_cases:
  "fst (snd (search w g s)) =
     (let w1 = msg_contents w (location (w s))
                 (key (w s) @ '' seems to be looking for something.'') [s];
          rand = fst (randint 0 100 g); g1 = snd (randint 0 100 g);
          rp = reveal_people w1 g1 s
      in if rand < 40 then msg w1 s ''You haven't found anything.''
         else if fst rp = Inr False then msg (fst (snd rp)) s ''You haven't found anything.''
         else fst (snd rp))"
  by (auto simp add: search_def Let_def split_beta split: sum.splits prod.splits)

lemma search_low_roll:
  "fst (randint 0 100 g) < 40 \<Longrightarrow>
     search w g s =
       (Inr (),
        msg (msg_contents w (location (w s))
               (key (w s) @ '' seems to be looking for something.'') [s])
            s ''You haven't found anything.'',
        snd (randint 0 100 g))"
  by (auto simp add: search_def Let_def split_beta)

lemma search_people:
  "40 \<le> fst (randint 0 100 g) \<Longrightarrow>
     search w g s =
       (case reveal_people (msg_contents w (location (w s))
               (key (w s) @ '' seems to be looking for something.'') [s])
              (snd (randint 0 100 g)) s of
           (Inl e, w2, g2) \<Rightarrow> (Inl e, w2, g2)
         | (Inr found, w2, g2) \<Rightarrow>
             if \<not> found then (Inr (), msg w2 s ''You haven't found anything.'', g2)
             else (Inr (), w2, g2))"
  by (simp add: search_def Let_def split_beta)

lemma range_0_7: "reveal_people_loop 7 = reveal_people_loop (Suc (Suc (Suc (Suc (Suc (Suc (Suc 0)))))))"
  by (simp add: eval_nat_numeral)

lemma loop_only_searcher:
  "cs \<noteq> [] \<Longrightarrow> set cs \<subseteq> {s} \<Longrightarrow>
     fst (reveal_people_loop n cs w g s) = Inr False
     \<and> fst (snd (reveal_people_loop n cs w g s)) = w"
proof (induction n arbitrary: g)
  case 0
  show ?case by simp
next
  case (Suc n)
  have "cs ! (shd g mod length cs) \<in> set cs"
    using Suc.prems(1) by simp
  then have p: "cs ! (shd g mod length cs) = s" using Suc.prems(2) by auto
  show ?case using Suc.IH [OF Suc.prems] Suc.prems(1)
    by (simp add: choice_def p)
qed

text \<open>
  When the searcher is the only character in its room, every pick is the searcher itself:
  the reveal-people branch finds nothing, nothing but inboxes changes, and the searcher is
  told so.
\<close>

lemma search_only_searcher:
  assumes "40 \<le> fst (randint 0 100 g)"
    and "filter (\<lambda>x. is_character (w x)) (contents (w (location (w s)))) \<noteq> []"
    and "\<forall>x \<in> set (contents (w (location (w s)))). is_character (w x) \<longrightarrow> x = s"
  shows "fst (search w g s) = Inr ()
     \<and> fst (snd (search w g s)) =
         msg (msg_contents w (location (w s))
               (key (w s) @ '' seems to be looking for something.'') [s])
           s ''You haven't found anything.''"
proof -
  let ?w1 = "msg_contents w (location (w s))
               (key (w s) @ '' seems to be looking for something.'') [s]"
  let ?cs = "filter (\<lambda>x. is_character (?w1 x)) (contents (?w1 (location (?w1 s))))"
  have cs: "?cs = filter (\<lambda>x. is_character (w x)) (contents (w (location (w s))))"
    by (simp add: msg_contents_def msg_each_fields)
  have ne: "?cs \<noteq> []" using assms(2) cs by simp
  have sub: "set ?cs \<subseteq> {s}" unfolding cs using assms(3) by auto
  note l = loop_only_searcher [OF ne sub, of 7 ?w1 "snd (randint 0 100 g)"]
  obtain r w2 g2 where rp: "reveal_people ?w1 (snd (randint 0 100 g)) s = (r, w2, g2)"
    by (cases "reveal_people ?w1 (snd (randint 0 100 g)) s") auto
  from l rp have "r = Inr False" "w2 = ?w1"
    by (simp_all add: reveal_people_def Let_def)
  then show ?thesis using rp assms(1) by (simp add: search_people)
qed

text \<open>
  C10. An actor whose concealment is at least MAX_HIDE is never revealed: whoever searches
  and whatever the random source yields, reveal_people and search leave that actor's
  concealment as it was, since the discovery roll never exceeds 15.
\<close>

theorem well_hidden_never_revealed:
  "MAX_HIDE \<le> hiding (w a) \<Longrightarrow>
     hiding (fst (snd (reveal_people w g s)) a) = hiding (w a)
     \<and> hiding (fst (snd (search w g s)) a) = hiding (w a)"
proof -
  assume "MAX_HIDE \<le> hiding (w a)"
  then have h: "15 \<le> hiding (w a)" by (simp add: MAX_HIDE_def)
  have rp: "\<And>w' g'. 15 \<le> hiding (w' a) \<Longrightarrow>
              hiding (fst (snd (reveal_people w' g' s)) a) = hiding (w' a)"
    by (simp add: reveal_people_def Let_def reveal_people_loop_keeps)
  let ?w1 = "msg_contents w (location (w s))
               (key (w s) @ '' seems to be looking for something.'') [s]"
  have h1: "15 \<le> hiding (?w1 a)"
    using h by (simp add: msg_contents_def msg_each_fields)
  have "hiding (fst (snd (search w g s)) a) = hiding (?w1 a)"
    using rp [where w' = ?w1, OF h1] by (simp add: search_world_cases Let_def msg_fields)
  then have "hiding (fst (snd (search w g s)) a) = hiding (w a)"
    by (simp add: msg_contents_def msg_each_fields)
  with rp [where w' = w, OF h] show ?thesis by simp
qed

theorem well_hidden_never_revealed_witness:
  "MAX_HIDE \<le> hiding (demo_world 32)
   \<and> hiding (fst (snd (reveal_people demo_world (40 ## sconst 1) 31)) 32) = 15
   \<and> hiding (fst (snd (search demo_world (40 ## sconst 1) 31)) 32) = 15"
proof -
  have h: "MAX_HIDE \<le> hiding (demo_world 32)" by (simp add: MAX_HIDE_def demo_defs)
  have v: "hiding (demo_world 32) = 15" by (simp add: demo_defs)
  show ?thesis
    using h v well_hidden_never_revealed [where w = demo_world and a = 32 and s = 31
        and g = "40 ## sconst 1", OF h]
    by simp
qed

text \<open>
  C9, as claimed: the reveal-people branch is taken exactly when the roll lies in the
  half-open range from 40 to 100. The roll can be 100, and then the branch is taken too:
  with the roll 100 alice picks bob, the discovery roll 15 exceeds his concealment 1, and
  bob is revealed.
\<close>

theorem search_roll_100_counterexample:
  "fst (randint 0 100 (100 ## 1 ## 15 ## sconst 0)) = 100
   \<and> hiding (demo_world 12) = 1
   \<and> fst (search demo_world (100 ## 1 ## 15 ## sconst 0) 11) = Inr ()
   \<and> hiding (fst (snd (search demo_world (100 ## 1 ## 15 ## sconst 0) 11)) 12) = 0
   \<and> inbox (fst (snd (search demo_world (100 ## 1 ## 15 ## sconst 0) 11)) 11)
       = [''You've found bob hiding in the shadows!'']"
  by (simp add: search_def reveal_people_def range_0_7 choice_def randint_def Let_def
        is_hiding_def MAX_HIDE_def msg_contents_def msg_each_def msg_def demo_defs)

text \<open>
  C9, amended. search draws one category roll, which lies between 0 and 100 inclusive.
  Below 20 (objects) and from 20 to below 40 (exits) nothing is found: the call returns
  normally, the searcher is told "You haven't found anything." after the opening
  broadcast, one draw is consumed, and no field other than inboxes changes. From 40 up to
  and including 100 the reveal-people branch runs on the world after the broadcast: when
  it reports no find the searcher is told "You haven't found anything.", when it reports a
  find the call returns with the world that reveal_people left.
\<close>

theorem search_branches:
  "0 \<le> fst (randint 0 100 g) \<and> fst (randint 0 100 g) \<le> 100
   \<and> (fst (randint 0 100 g) < 20 \<longrightarrow>
        search w g s =
          (Inr (),
           msg (msg_contents w (location (w s))
                  (key (w s) @ '' seems to be looking for something.'') [s])
               s ''You haven't found anything.'',
           snd (randint 0 100 g)))
   \<and> (20 \<le> fst (randint 0 100 g) \<and> fst (randint 0 100 g) < 40 \<longrightarrow>
        search w g s =
          (Inr (),
           msg (msg_contents w (location (w s))
                  (key (w s) @ '' seems to be looking for something.'') [s])
               s ''You haven't found anything.'',
           snd (randint 0 100 g)))
   \<and> (fst (randint 0 100 g) < 40 \<longrightarrow>
        (\<forall>x. (fst (snd (search w g s)) x)\<lparr>inbox := []\<rparr> = (w x)\<lparr>inbox := []\<rparr>))
   \<and> (40 \<le> fst (randint 0 100 g) \<longrightarrow>
        (\<forall>w2 g2. reveal_people
                    (msg_contents w (location (w s))
                       (key (w s) @ '' seems to be looking for something.'') [s])
                    (snd (randint 0 100 g)) s = (Inr False, w2, g2)
           \<longrightarrow> search w g s = (Inr (), msg w2 s ''You haven't found anything.'', g2))
        \<and> (\<forall>w2 g2. reveal_people
                    (msg_contents w (location (w s))
                       (key (w s) @ '' seems to be looking for something.'') [s])
                    (snd (randint 0 100 g)) s = (Inr True, w2, g2)
           \<longrightarrow> search w g s = (Inr (), w2, g2)))"
proof -
  have r: "0 \<le> fst (randint 0 100 g) \<and> fst (randint 0 100 g) \<le> 100"
    using randint_range [of 0 100 g] by simp
  have f: "fst (randint 0 100 g) < 40 \<Longrightarrow>
        (\<forall>x. (fst (snd (search w g s)) x)\<lparr>inbox := []\<rparr> = (w x)\<lparr>inbox := []\<rparr>)"
    by (simp add: search_low_roll msg_frame msg_contents_def msg_each_frame)
  show ?thesis
    using r f by (auto simp add: search_low_roll search_people)
qed

theorem search_branches_witness:
  "fst (randint 0 100 (sconst 5)) < 20
   \<and> inbox (fst (snd (search demo_world (sconst 5) 41)) 41) = [''You haven't found anything.'']
   \<and> 20 \<le> fst (randint 0 100 (sconst 30)) \<and> fst (randint 0 100 (sconst 30)) < 40
   \<and> inbox (fst (snd (search demo_world (sconst 30) 41)) 41) = [''You haven't found anything.'']
   \<and> 40 \<le> fst (randint 0 100 (40 ## sconst 0))
   \<and> fst (search demo_world (40 ## sconst 0) 41) = Inr ()
   \<and> inbox (fst (snd (search demo_world (40 ## sconst 0) 41)) 41)
       = [''You haven't found anything.'']
   \<and> 40 \<le> fst (randint 0 100 (100 ## 1 ## 15 ## sconst 0))
   \<and> fst (search demo_world (100 ## 1 ## 15 ## sconst 0) 11) = Inr ()
   \<and> hiding (fst (snd (search demo_world (100 ## 1 ## 15 ## sconst 0) 11)) 12) = 0"
proof -
  let ?w1 = "msg_contents demo_world (location (demo_world 41))
               (key (demo_world 41) @ '' seems to be looking for something.'') [41]"
  let ?v1 = "msg_contents demo_world (location (demo_world 11))
               (key (demo_world 11) @ '' seems to be looking for something.'') [11]"
  have i1: "inbox (?w1 41) = []"
    by (simp add: msg_contents_def msg_each_inbox demo_defs)
  have a: "fst (randint 0 100 (sconst 5)) < 20"
    and b1: "20 \<le> fst (randint 0 100 (sconst 30))"
    and b2: "fst (randint 0 100 (sconst 30)) < 40"
    and c: "40 \<le> fst (randint 0 100 (40 ## sconst 0))"
    and d: "40 \<le> fst (randint 0 100 (100 ## 1 ## 15 ## sconst 0))"
    by (simp_all add: randint_def)
  have rp_c: "reveal_people ?w1 (snd (randint 0 100 (40 ## sconst 0))) 41
                = (Inr False, ?w1, sconst 0)"
    by (simp add: reveal_people_def range_0_7 choice_def randint_def Let_def
          msg_contents_def msg_each_fields demo_defs)
  have rp_d: "reveal_people ?v1 (snd (randint 0 100 (100 ## 1 ## 15 ## sconst 0))) 11
                = (Inr True, fst (snd (reveal_people ?v1 (1 ## 15 ## sconst 0) 11)),
                   snd (snd (reveal_people ?v1 (1 ## 15 ## sconst 0) 11)))"
    by (simp add: reveal_people_def range_0_7 choice_def randint_def Let_def
          is_hiding_def MAX_HIDE_def msg_contents_def msg_each_fields demo_defs)
  have hd: "hiding (fst (snd (reveal_people ?v1 (1 ## 15 ## sconst 0) 11)) 12) = 0"
    by (simp add: reveal_people_def range_0_7 choice_def randint_def Let_def
          is_hiding_def MAX_HIDE_def msg_contents_def msg_each_fields msg_fields demo_defs)
  note ta = search_branches [where w = demo_world and s = 41 and g = "sconst 5"]
  note tb = search_branches [where w = demo_world and s = 41 and g = "sconst 30"]
  note tc = search_branches [where w = demo_world and s = 41 and g = "40 ## sconst 0"]
  note td = search_branches [where w = demo_world and s = 11
              and g = "100 ## 1 ## 15 ## sconst 0"]
  from ta a have ea: "fst (snd (search demo_world (sconst 5) 41))
                        = msg ?w1 41 ''You haven't found anything.''"
    by simp
  from tb b1 b2 have eb: "fst (snd (search demo_world (sconst 30) 41))
                        = msg ?w1 41 ''You haven't found anything.''"
    by simp
  from tc c have pc:
    "\<forall>w2 g2. reveal_people ?w1 (snd (randint 0 100 (40 ## sconst 0))) 41 = (Inr False, w2, g2)
       \<longrightarrow> search demo_world (40 ## sconst 0) 41
            = (Inr (), msg w2 41 ''You haven't found anything.'', g2)"
    by simp
  note ec = pc [rule_format, OF rp_c]
  from td d have pd:
    "\<forall>w2 g2. reveal_people ?v1 (snd (randint 0 100 (100 ## 1 ## 15 ## sconst 0))) 11
                 = (Inr True, w2, g2)
       \<longrightarrow> search demo_world (100 ## 1 ## 15 ## sconst 0) 11 = (Inr (), w2, g2)"
    by simp
  note ed = pd [rule_format, OF rp_d]
  have ia: "inbox (fst (snd (search demo_world (sconst 5) 41)) 41)
              = [''You haven't found anything.'']"
    unfolding ea by (simp add: msg_inbox i1)
  have ib: "inbox (fst (snd (search demo_world (sconst 30) 41)) 41)
              = [''You haven't found anything.'']"
    unfolding eb by (simp add: msg_inbox i1)
  have ic: "inbox (fst (snd (search demo_world (40 ## sconst 0) 41)) 41)
              = [''You haven't found anything.'']"
    unfolding ec by (simp add: msg_inbox i1)
  have fc: "fst (search demo_world (40 ## sconst 0) 41) = Inr ()"
    unfolding ec by simp
  have fd: "fst (search demo_world (100 ## 1 ## 15 ## sconst 0) 11) = Inr ()"
    unfolding ed by simp
  have hd': "hiding (fst (snd (search demo_world (100 ## 1 ## 15 ## sconst 0) 11)) 12) = 0"
    unfolding ed using hd by simp
  show ?thesis by (intro conjI) fact+
qed

text \<open>
  C3. The claim is that the reveal-people branch completes and reports nothing found also
  when the candidate set is empty. On the code it fails: the rat, which is not of the
  Character typeclass, searches alone in the Cave with the category roll 40; the candidate
  list is empty, \<^verbatim>\<open>random.choice\<close> raises IndexError out of search, and the rat is told
  nothing.
\<close>

theorem search_empty_candidates_raises:
  "filter (\<lambda>x. is_character (demo_world x)) (contents (demo_world (location (demo_world 21))))
     = []
   \<and> fst (randint 0 100 (40 ## sconst 0)) = 40
   \<and> fst (search demo_world (40 ## sconst 0) 21) = Inl IndexError
   \<and> inbox (fst (snd (search demo_world (40 ## sconst 0) 21)) 21) = []"
  by (simp add: search_def reveal_people_def range_0_7 choice_def randint_def Let_def
        msg_contents_def msg_each_def msg_def demo_defs)

section \<open>Condition tiers\<close>

lemma self_tier_eq:
  "tier_of self_tiers (self_health_msg a) =
     (if health a \<ge> 1700 then 12 else if health a > 1400 then 11
      else if health a > 1200 then 10 else if health a > 1000 then 9
      else if health a > 850 then 8 else if health a > 700 then 7
      else if health a > 500 then 6 else if health a > 350 then 5
      else if health a > 200 then 4 else if health a > 100 then 3
      else if health a > 50 then 2 else if health a > 1 then 1 else 0)"
  by (simp add: tier_of_def self_tiers_def self_health_msg_def Let_def)

lemma health_tier_eq:
  "tier_of (health_tiers (key a)) (health_msg a) =
     (if health a \<ge> 1700 then 12 else if health a > 1400 then 11
      else if health a > 1200 then 10 else if health a > 1000 then 9
      else if health a > 850 then 8 else if health a > 700 then 7
      else if health a > 500 then 6 else if health a > 350 then 5
      else if health a > 200 then 4 else if health a > 100 then 3
      else if health a > 50 then 2 else if health a > 1 then 1 else 0)"
  by (simp add: tier_of_def health_tiers_def health_msg_def Let_def)

text \<open>
  C8. Tier selection is monotonic: when actor \<open>a\<close> has more health than actor \<open>b\<close>, the
  tier of the self-perspective message chosen for \<open>a\<close> is not below the tier chosen for
  \<open>b\<close>, and the same holds for the third-person messages.
\<close>

theorem tier_selection_monotonic:
  "health b < health a \<Longrightarrow>
     tier_of self_tiers (self_health_msg b) \<le> tier_of self_tiers (self_health_msg a)
     \<and> tier_of (health_tiers (key b)) (health_msg b)
           \<le> tier_of (health_tiers (key a)) (health_msg a)"
  unfolding self_tier_eq health_tier_eq by (simp split: if_splits)

theorem tier_selection_monotonic_witness:
  "health (demo_world 12) < health (demo_world 11)
   \<and> tier_of self_tiers (self_health_msg (demo_world 12))
       \<le> tier_of self_tiers (self_health_msg (demo_world 11))
   \<and> tier_of (health_tiers (key (demo_world 12))) (health_msg (demo_world 12))
       \<le> tier_of (health_tiers (key (demo_world 11))) (health_msg (demo_world 11))"
proof -
  have h: "health (demo_world 12) < health (demo_world 11)"
    by (simp add: demo_defs)
  show ?thesis using h tier_selection_monotonic [OF h] by simp
qed

end
